theory Spec2Isabelle
  imports Main "HOL-Library.Word"
begin

section \<open>The strands-agent example of mermkit\<close>

text \<open>
  The source is \<^verbatim>\<open>examples/strands-agent/agent.py\<close>:
  \<^verbatim>\<open>
  _client = MermkitClient()
  _client.start()
  atexit.register(_client.close)

  @tool
  def render_mermaid(diagram: str, format: str = "svg") -> dict:
      result = _client.render(diagram, format=format, engine="stub")
      return {"mime": result.mime, "bytes": result.bytes, "warnings": result.warnings}
  \<close>
  The class \<^verbatim>\<open>MermkitClient\<close> and the agent framework are imported: the tool function is
  modelled over an arbitrary client, whose state is threaded through every call and whose
  exceptions are the left summand of the outcome.
\<close>

subsection \<open>Python values and the client's response\<close>

datatype pyval =
    PyNone
  | PyStr string
  | PyBytes "8 word list"
  | PyList "pyval list"

text \<open>The object returned by \<^verbatim>\<open>_client.render\<close>; the tool reads three attributes of it.\<close>

record render_response =
  mime :: pyval
  bytes :: pyval
  warnings :: pyval

text \<open>
  \<^verbatim>\<open>MermkitClient.render(source, format=..., engine=...)\<close> on a client in state \<open>'c\<close>:
  it raises (\<open>Inl\<close>) or returns a response (\<open>Inr\<close>), and leaves the client in a new state.
\<close>

type_synonym ('c, 'e) render_fn =
  "'c \<Rightarrow> string \<Rightarrow> string \<Rightarrow> string \<Rightarrow> ('e + render_response) \<times> 'c"

subsection \<open>The tool function\<close>

text \<open>
  The parameter \<^verbatim>\<open>format: str = "svg"\<close>: \<open>None\<close> is a call that leaves the argument out.
\<close>

definition format_param :: "string option \<Rightarrow> string" where
  "format_param format_arg = (case format_arg of None \<Rightarrow> ''svg'' | Some f \<Rightarrow> f)"

text \<open>A Python \<^verbatim>\<open>dict\<close> literal, in insertion order.\<close>

type_synonym pydict = "(string \<times> pyval) list"

definition render_mermaid ::
  "('c, 'e) render_fn \<Rightarrow> 'c \<Rightarrow> string \<Rightarrow> string option \<Rightarrow> ('e + pydict) \<times> 'c" where
  "render_mermaid client_render client diagram format_arg =
     (let format = format_param format_arg in
      case client_render client diagram format ''stub'' of
        (Inl exn, client') \<Rightarrow> (Inl exn, client')
      | (Inr result, client') \<Rightarrow>
          (Inr [(''mime'', mime result),
                (''bytes'', bytes result),
                (''warnings'', warnings result)], client'))"

subsection \<open>Observing the calls made on the client\<close>

datatype event =
    Ev_start
  | Ev_render string string string
  | Ev_close

text \<open>
  A client wrapped so that every \<^verbatim>\<open>render\<close> it receives is appended, with its three
  arguments, to a log kept beside the client's own state.
\<close>

definition recording :: "('c, 'e) render_fn \<Rightarrow> ('c \<times> event list, 'e) render_fn" where
  "recording client_render =
     (\<lambda>(c, log) source format engine.
        case client_render c source format engine of
          (r, c') \<Rightarrow> (r, (c', log @ [Ev_render source format engine])))"

text \<open>
  A client is deterministic when the outcome of \<^verbatim>\<open>render\<close> is a function of its
  arguments alone, whatever state the client is in.
\<close>

definition deterministic :: "('c, 'e) render_fn \<Rightarrow> bool" where
  "deterministic client_render \<longleftrightarrow>
     (\<forall>c c' source format engine.
        fst (client_render c source format engine) = fst (client_render c' source format engine))"

subsection \<open>The module as a process\<close>

text \<open>
  The class \<^verbatim>\<open>MermkitClient\<close> as the module uses it: the constructor, \<^verbatim>\<open>start\<close>,
  \<^verbatim>\<open>close\<close> and \<^verbatim>\<open>render\<close>. Each of them may raise; \<^verbatim>\<open>start\<close> and \<^verbatim>\<open>close\<close>
  return \<open>None\<close> when they return normally.
\<close>

record ('c, 'e) client_class =
  construct :: "'e + 'c"
  start :: "'c \<Rightarrow> 'e option \<times> 'c"
  close :: "'c \<Rightarrow> 'e option \<times> 'c"
  render :: "('c, 'e) render_fn"

text \<open>
  The agent framework as the module uses it: the decorator \<^verbatim>\<open>@tool\<close> and the constructor
  \<^verbatim>\<open>Agent(tools=[render_mermaid])\<close>, each raising or not. A direct tool call
  \<^verbatim>\<open>agent.tool.render_mermaid(...)\<close> calls the decorated function.
\<close>

record 'e framework =
  tool_decorator :: "'e option"
  agent_init :: "'e option"

text \<open>The functions registered with \<^verbatim>\<open>atexit\<close>; the module registers \<^verbatim>\<open>_client.close\<close> only.\<close>

datatype hook = Hook_close

datatype 'e exit = Finished | Uncaught 'e

text \<open>
  Interpreter shutdown, after the main module has finished or an exception has reached the
  top level: the registered functions are called one after the other, and an exception raised
  by one of them does not stop the others.
\<close>

fun run_hooks :: "('c, 'e) client_class \<Rightarrow> hook list \<Rightarrow> 'c \<Rightarrow> event list \<Rightarrow> event list" where
  "run_hooks K [] c log = log"
| "run_hooks K (Hook_close # hs) c log = run_hooks K hs (snd (close K c)) (log @ [Ev_close])"

text \<open>
  The statements of the module in order, with \<open>is_main\<close> for \<^verbatim>\<open>__name__ == "__main__"\<close>.
  The result is how the process ends and the calls made on the client, in order. An exception
  raised before \<^verbatim>\<open>atexit.register\<close> has run ends the process with no function registered.
\<close>

definition agent_script ::
  "('c, 'e) client_class \<Rightarrow> 'e framework \<Rightarrow> bool \<Rightarrow> 'e exit \<times> event list" where
  "agent_script K F is_main =
     (case construct K of
        Inl exn \<Rightarrow> (Uncaught exn, [])
      | Inr c0 \<Rightarrow>
          (case start K c0 of
             (Some exn, c1) \<Rightarrow> (Uncaught exn, [Ev_start])
           | (None, c1) \<Rightarrow>
               (let hooks = [Hook_close]; log = [Ev_start] in
                case tool_decorator F of
                  Some exn \<Rightarrow> (Uncaught exn, run_hooks K hooks c1 log)
                | None \<Rightarrow>
                    if \<not> is_main then (Finished, run_hooks K hooks c1 log)
                    else
                      (case agent_init F of
                         Some exn \<Rightarrow> (Uncaught exn, run_hooks K hooks c1 log)
                       | None \<Rightarrow>
                           (case render_mermaid (recording (render K)) (c1, log)
                                   ''graph TD; A-->B'' (Some ''svg'') of
                              (Inl exn, (c2, log2)) \<Rightarrow> (Uncaught exn, run_hooks K hooks c2 log2)
                            | (Inr result, (c2, log2)) \<Rightarrow>
                                (Finished, run_hooks K hooks c2 log2))))))"

subsection \<open>The rendering client, from its specification\<close>

text \<open>
  Modelled from the spec: the error kinds of the render operation, raised by the class
  \<^verbatim>\<open>MermkitClient\<close> of the package \<^verbatim>\<open>mermkit\<close>, which is not among the sources.
\<close>

datatype error = InvalidArgument | BackendUnavailable | RenderError

text \<open>
  Modelled from the spec: the state of a \<^verbatim>\<open>MermkitClient\<close>, which is not among the sources.
  The spec gives it one observable: whether the connection to the backend is established.
\<close>

record client =
  connected :: bool

text \<open>
  Modelled from the spec: \<^verbatim>\<open>MermkitClient()\<close>, whose connection is not yet established,
  and \<^verbatim>\<open>start()\<close> ("establish connection, idempotent"), which are not among the sources.
\<close>

definition new_client :: client where
  "new_client = \<lparr>connected = False\<rparr>"

definition client_start :: "client \<Rightarrow> client" where
  "client_start c = c\<lparr>connected := True\<rparr>"

text \<open>
  Modelled from the spec: the supported values of \<^verbatim>\<open>format\<close> with the MIME type of each
  ("svg" gives "image/svg+xml", "png" gives "image/png"); the table is not among the sources.
\<close>

definition supported_formats :: "(string \<times> string) list" where
  "supported_formats = [(''svg'', ''image/svg+xml''), (''png'', ''image/png'')]"

text \<open>
  The rendering backend is an external service: from the source text, the format and the
  engine selector it gives the output bytes and the warnings, or \<open>None\<close> when it reports a
  rendering failure.
\<close>

type_synonym backend = "string \<Rightarrow> string \<Rightarrow> string \<Rightarrow> (8 word list \<times> string list) option"

text \<open>
  Modelled from the spec: \<^verbatim>\<open>MermkitClient.render\<close>, which is not among the sources. It
  fails with BackendUnavailable if the connection is not established, with InvalidArgument if
  the source is empty or the format is not a supported value, and with RenderError if the
  backend reports a rendering failure. A successful result has the MIME type of the format
  and non-empty bytes, so a reply without output bytes counts as a rendering failure. The
  connection is checked before the arguments: the spec states the failure of an unconnected
  client with no condition on the input. The spec gives \<^verbatim>\<open>render\<close> no effect on the
  client.
\<close>

definition client_render :: "backend \<Rightarrow> (client, error) render_fn" where
  "client_render backend c source format engine =
     (if \<not> connected c then (Inl BackendUnavailable, c)
      else if source = [] then (Inl InvalidArgument, c)
      else case map_of supported_formats format of
        None \<Rightarrow> (Inl InvalidArgument, c)
      | Some mime_type \<Rightarrow>
          (case backend source format engine of
             None \<Rightarrow> (Inl RenderError, c)
           | Some (payload, ws) \<Rightarrow>
               if payload = [] then (Inl RenderError, c)
               else (Inr \<lparr>mime = PyStr mime_type,
                          bytes = PyBytes payload,
                          warnings = PyList (map PyStr ws)\<rparr>, c)))"

section \<open>Properties of the tool function\<close>

lemma render_mermaid_outcome:
  "fst (render_mermaid cr c d fa) =
     map_sum id (\<lambda>r. [(''mime'', mime r), (''bytes'', bytes r), (''warnings'', warnings r)])
       (fst (cr c d (format_param fa) ''stub''))"
  by (simp add: render_mermaid_def Let_def split: prod.splits sum.splits)

lemma render_mermaid_state:
  "snd (render_mermaid cr c d fa) = snd (cr c d (format_param fa) ''stub'')"
  by (simp add: render_mermaid_def Let_def split: prod.splits sum.splits)

text \<open>
  Claim C5. Every successful call returns a dictionary with exactly the keys
  \<^verbatim>\<open>mime\<close>, \<^verbatim>\<open>bytes\<close> and \<^verbatim>\<open>warnings\<close>, in this order, each bound to the attribute of
  that name of the client's response, unmodified; the client did return that response.
\<close>

theorem render_mermaid_three_fields:
  assumes "render_mermaid cr c d fa = (Inr res, c')"
  shows "\<exists>r. cr c d (format_param fa) ''stub'' = (Inr r, c')
           \<and> map fst res = [''mime'', ''bytes'', ''warnings'']
           \<and> map_of res ''mime'' = Some (mime r)
           \<and> map_of res ''bytes'' = Some (bytes r)
           \<and> map_of res ''warnings'' = Some (warnings r)"
  using assms
  by (auto simp: render_mermaid_def Let_def split: prod.splits sum.splits)

theorem render_mermaid_three_fields_witness:
  "\<exists>r. (\<lambda>c d f e. (Inr \<lparr>mime = PyStr f, bytes = PyBytes [1, 2], warnings = PyList []\<rparr>, Suc c))
          (0::nat) ''graph TD; A-->B'' (format_param (Some ''png'')) ''stub''
          = (Inr r :: unit + render_response, 1)
     \<and> map fst [(''mime'', PyStr ''png''), (''bytes'', PyBytes [1, 2]), (''warnings'', PyList [])]
         = [''mime'', ''bytes'', ''warnings'']
     \<and> map_of [(''mime'', PyStr ''png''), (''bytes'', PyBytes [1, 2]), (''warnings'', PyList [])]
         ''mime'' = Some (mime r)
     \<and> map_of [(''mime'', PyStr ''png''), (''bytes'', PyBytes [1, 2]), (''warnings'', PyList [])]
         ''bytes'' = Some (bytes r)
     \<and> map_of [(''mime'', PyStr ''png''), (''bytes'', PyBytes [1, 2]), (''warnings'', PyList [])]
         ''warnings'' = Some (warnings r)"
proof -
  have call: "render_mermaid
      (\<lambda>c d f e. (Inr \<lparr>mime = PyStr f, bytes = PyBytes [1, 2], warnings = PyList []\<rparr>, Suc c))
      (0::nat) ''graph TD; A-->B'' (Some ''png'')
    = (Inr [(''mime'', PyStr ''png''), (''bytes'', PyBytes [1, 2]), (''warnings'', PyList [])]
         :: unit + pydict, 1)"
    by (simp add: render_mermaid_def format_param_def)
  show ?thesis
    using render_mermaid_three_fields [OF call] .
qed

text \<open>
  Claim C6. Whatever the diagram and the format, a call of the tool makes exactly one
  \<^verbatim>\<open>render\<close> call on the client, with the diagram and the format it was given and with
  the engine selector \<^verbatim>\<open>"stub"\<close>.
\<close>

theorem render_mermaid_fixed_engine:
  "snd (snd (render_mermaid (recording cr) (c, log) d fa))
     = log @ [Ev_render d (format_param fa) ''stub'']"
  by (simp add: render_mermaid_state recording_def split: prod.splits)

text \<open>
  Claim C7. With a deterministic client, two calls of the tool with the same diagram and the
  same format argument, the second made on the client as the first left it, have the same
  outcome: the same exception, or dictionaries with the same \<^verbatim>\<open>mime\<close> and \<^verbatim>\<open>bytes\<close>.
\<close>

theorem render_mermaid_idempotent:
  assumes "deterministic cr"
    and "render_mermaid cr c d fa = (r1, c1)"
    and "render_mermaid cr c1 d fa = (r2, c2)"
  shows "r2 = r1
       \<and> (\<forall>res1. r1 = Inr res1 \<longrightarrow>
            (\<exists>res2. r2 = Inr res2
               \<and> map_of res2 ''mime'' = map_of res1 ''mime''
               \<and> map_of res2 ''bytes'' = map_of res1 ''bytes''))"
proof -
  have "fst (cr c1 d (format_param fa) ''stub'') = fst (cr c d (format_param fa) ''stub'')"
    using assms(1) unfolding deterministic_def by blast
  then have "fst (render_mermaid cr c1 d fa) = fst (render_mermaid cr c d fa)"
    by (simp only: render_mermaid_outcome)
  with assms(2,3) have "r2 = r1" by simp
  then show ?thesis by simp
qed

theorem render_mermaid_idempotent_witness:
  "deterministic (\<lambda>(c::nat) (d::string) (f::string) (e::string).
       (Inr \<lparr>mime = PyStr f, bytes = PyBytes [60], warnings = PyList [PyStr d]\<rparr>
          :: unit + render_response, Suc c))
   \<and> fst (render_mermaid (\<lambda>(c::nat) (d::string) (f::string) (e::string).
       (Inr \<lparr>mime = PyStr f, bytes = PyBytes [60], warnings = PyList [PyStr d]\<rparr>
          :: unit + render_response, Suc c)) 1 ''graph TD; A-->B'' None)
     = fst (render_mermaid (\<lambda>(c::nat) (d::string) (f::string) (e::string).
       (Inr \<lparr>mime = PyStr f, bytes = PyBytes [60], warnings = PyList [PyStr d]\<rparr>
          :: unit + render_response, Suc c)) 0 ''graph TD; A-->B'' None)
   \<and> snd (render_mermaid (\<lambda>(c::nat) (d::string) (f::string) (e::string).
       (Inr \<lparr>mime = PyStr f, bytes = PyBytes [60], warnings = PyList [PyStr d]\<rparr>
          :: unit + render_response, Suc c)) 0 ''graph TD; A-->B'' None) = 1"
proof -
  let ?cr = "\<lambda>(c::nat) (d::string) (f::string) (e::string).
     (Inr \<lparr>mime = PyStr f, bytes = PyBytes [60], warnings = PyList [PyStr d]\<rparr>
        :: unit + render_response, Suc c)"
  have det: "deterministic ?cr"
    by (simp add: deterministic_def)
  have first: "render_mermaid ?cr 0 ''graph TD; A-->B'' None
      = (fst (render_mermaid ?cr 0 ''graph TD; A-->B'' None), 1)"
    by (simp add: render_mermaid_def format_param_def)
  have second: "render_mermaid ?cr 1 ''graph TD; A-->B'' None
      = (fst (render_mermaid ?cr 1 ''graph TD; A-->B'' None), 2)"
    by (simp add: render_mermaid_def format_param_def)
  have same: "fst (render_mermaid ?cr 1 ''graph TD; A-->B'' None)
      = fst (render_mermaid ?cr 0 ''graph TD; A-->B'' None)"
    using render_mermaid_idempotent [OF det first second] by (rule conjunct1)
  have state: "snd (render_mermaid ?cr 0 ''graph TD; A-->B'' None) = 1"
    by (simp add: render_mermaid_def format_param_def)
  from det same state show ?thesis by (intro conjI)
qed

text \<open>
  Claim C8. A call that gives no format argument sends the format \<^verbatim>\<open>"svg"\<close> to the
  client, and behaves as the call that gives \<^verbatim>\<open>"svg"\<close> explicitly.
\<close>

theorem render_mermaid_default_format:
  "snd (snd (render_mermaid (recording cr) (c, log) d None)) = log @ [Ev_render d ''svg'' ''stub'']
   \<and> render_mermaid cr c d None = render_mermaid cr c d (Some ''svg'')"
proof
  show "snd (snd (render_mermaid (recording cr) (c, log) d None))
          = log @ [Ev_render d ''svg'' ''stub'']"
    by (simp add: render_mermaid_state recording_def format_param_def split: prod.splits)
  show "render_mermaid cr c d None = render_mermaid cr c d (Some ''svg'')"
    by (simp add: render_mermaid_def format_param_def)
qed

text \<open>
  Claim C10. When the client's \<^verbatim>\<open>render\<close> raises, the tool raises the same exception,
  whatever it is, and leaves the client as \<^verbatim>\<open>render\<close> left it; conversely the tool raises
  nothing that the client did not raise.
\<close>

theorem render_mermaid_propagates:
  "(cr c d (format_param fa) ''stub'' = (Inl exn, c') \<longrightarrow> render_mermaid cr c d fa = (Inl exn, c'))
   \<and> (render_mermaid cr c d fa = (Inl exn, c') \<longrightarrow> cr c d (format_param fa) ''stub'' = (Inl exn, c'))"
  by (auto simp: render_mermaid_def Let_def split: prod.splits sum.splits)

theorem render_mermaid_propagates_witness:
  "render_mermaid (\<lambda>c d f e. (Inl (''TimeoutError'', d, f, e), Suc c)) (0::nat) ''graph TD; A-->B'' None
     = (Inl (''TimeoutError'', ''graph TD; A-->B'', ''svg'', ''stub'') , 1)"
proof -
  have raised: "(\<lambda>c d f e. (Inl (''TimeoutError'', d, f, e), Suc c))
        (0::nat) ''graph TD; A-->B'' (format_param None) ''stub''
      = (Inl (''TimeoutError'', ''graph TD; A-->B'', ''svg'', ''stub'') :: _ + render_response, 1)"
    by (simp add: format_param_def)
  show ?thesis
    using render_mermaid_propagates
      [of "\<lambda>c d f e. (Inl (''TimeoutError'', d, f, e), Suc c)" "0::nat" "''graph TD; A-->B''"
          None "(''TimeoutError'', ''graph TD; A-->B'', ''svg'', ''stub'')" 1]
      raised
    by blast
qed

section \<open>The module's use of the client's lifetime\<close>

lemma agent_script_log:
  assumes "construct K = Inr c0" and "fst (start K c0) = None"
  shows "snd (agent_script K F is_main) = [Ev_start, Ev_close]
       \<or> snd (agent_script K F is_main)
            = [Ev_start, Ev_render ''graph TD; A-->B'' ''svg'' ''stub'', Ev_close]"
proof -
  obtain c1 where st: "start K c0 = (None, c1)"
    using assms(2) by (cases "start K c0") auto
  obtain r c2 where rn: "render K c1 ''graph TD; A-->B'' ''svg'' ''stub'' = (r, c2)"
    by (cases "render K c1 ''graph TD; A-->B'' ''svg'' ''stub''") auto
  have call: "render_mermaid (recording (render K)) (c1, [Ev_start]) ''graph TD; A-->B'' (Some ''svg'')
     = (map_sum id (\<lambda>r. [(''mime'', mime r), (''bytes'', bytes r), (''warnings'', warnings r)]) r,
        (c2, [Ev_start, Ev_render ''graph TD; A-->B'' ''svg'' ''stub'']))"
    using rn
    by (simp add: render_mermaid_def recording_def format_param_def Let_def split: sum.splits)
  show ?thesis
    using assms(1) st call
    by (cases r) (simp_all add: agent_script_def Let_def split: option.splits)
qed

text \<open>
  Claim C9, as the module has it. When the constructor and \<^verbatim>\<open>start\<close> return normally,
  \<^verbatim>\<open>start\<close> is the first call made on the client and is made once, and \<^verbatim>\<open>close\<close> is the
  last call made on the client and is made once: whether the module is run as a script or
  imported, whether the decorator, the agent's constructor or the tool call raise or not.
\<close>

theorem agent_script_lifecycle:
  assumes "construct K = Inr c0" and "fst (start K c0) = None"
  shows "hd (snd (agent_script K F is_main)) = Ev_start
       \<and> count_list (snd (agent_script K F is_main)) Ev_start = 1
       \<and> last (snd (agent_script K F is_main)) = Ev_close
       \<and> count_list (snd (agent_script K F is_main)) Ev_close = 1"
  using agent_script_log [OF assms, of F is_main] by auto

theorem agent_script_lifecycle_witness:
  "hd (snd (agent_script
        \<lparr>construct = Inr (0::nat), start = (\<lambda>c. (None, Suc c)), close = (\<lambda>c. (None, 0)),
         render = (\<lambda>c d f e. (Inl ''render failed'', c))\<rparr>
        \<lparr>tool_decorator = None, agent_init = None\<rparr> True)) = Ev_start
   \<and> count_list (snd (agent_script
        \<lparr>construct = Inr (0::nat), start = (\<lambda>c. (None, Suc c)), close = (\<lambda>c. (None, 0)),
         render = (\<lambda>c d f e. (Inl ''render failed'', c))\<rparr>
        \<lparr>tool_decorator = None, agent_init = None\<rparr> True)) Ev_start = 1
   \<and> last (snd (agent_script
        \<lparr>construct = Inr (0::nat), start = (\<lambda>c. (None, Suc c)), close = (\<lambda>c. (None, 0)),
         render = (\<lambda>c d f e. (Inl ''render failed'', c))\<rparr>
        \<lparr>tool_decorator = None, agent_init = None\<rparr> True)) = Ev_close
   \<and> count_list (snd (agent_script
        \<lparr>construct = Inr (0::nat), start = (\<lambda>c. (None, Suc c)), close = (\<lambda>c. (None, 0)),
         render = (\<lambda>c d f e. (Inl ''render failed'', c))\<rparr>
        \<lparr>tool_decorator = None, agent_init = None\<rparr> True)) Ev_close = 1"
proof -
  let ?K = "\<lparr>construct = Inr (0::nat), start = (\<lambda>c. (None, Suc c)), close = (\<lambda>c. (None, 0)),
             render = (\<lambda>c d f e. (Inl ''render failed'', c))\<rparr>
            :: (nat, string) client_class"
  have made: "construct ?K = Inr 0" by simp
  have started: "fst (start ?K 0) = None" by simp
  show ?thesis
    using agent_script_lifecycle [OF made started] .
qed

text \<open>
  When \<^verbatim>\<open>start\<close> raises, the statement \<^verbatim>\<open>atexit.register(_client.close)\<close> is not reached:
  the process ends with the exception and \<^verbatim>\<open>close\<close> is never called.
\<close>

theorem agent_script_start_raises:
  "agent_script
      \<lparr>construct = Inr (0::nat),
       start = (\<lambda>c. (Some ''server not found'', c)),
       close = (\<lambda>c. (None, c)),
       render = (\<lambda>c d f e. (Inl ''not connected'', c))\<rparr>
      \<lparr>tool_decorator = None, agent_init = None\<rparr> True
     = (Uncaught ''server not found'', [Ev_start])
   \<and> Ev_close \<notin> set (snd (agent_script
      \<lparr>construct = Inr (0::nat),
       start = (\<lambda>c. (Some ''server not found'', c)),
       close = (\<lambda>c. (None, c)),
       render = (\<lambda>c d f e. (Inl ''not connected'', c))\<rparr>
      \<lparr>tool_decorator = None, agent_init = None\<rparr> True))"
  by (simp add: agent_script_def)

section \<open>The tool function over the specified client\<close>

text \<open>
  Claim C1. With the client of the specification, a successful call with a non-empty diagram
  and the format \<^verbatim>\<open>svg\<close> or \<^verbatim>\<open>png\<close> (given, or \<^verbatim>\<open>svg\<close> by default) returns a dictionary
  whose \<^verbatim>\<open>mime\<close> is \<^verbatim>\<open>image/svg+xml\<close> for \<^verbatim>\<open>svg\<close> and \<^verbatim>\<open>image/png\<close> for \<^verbatim>\<open>png\<close>, and
  whose \<^verbatim>\<open>bytes\<close> is a non-empty byte string.
\<close>

theorem render_mermaid_mime_and_bytes:
  assumes "diagram \<noteq> []"
    and "format_param fa \<in> {''svg'', ''png''}"
    and "render_mermaid (client_render backend) c diagram fa = (Inr res, c')"
  shows "map_of res ''mime''
           = Some (PyStr (if format_param fa = ''svg'' then ''image/svg+xml'' else ''image/png''))
       \<and> (\<exists>payload. map_of res ''bytes'' = Some (PyBytes payload) \<and> payload \<noteq> [])"
  using assms
  by (auto simp: render_mermaid_def client_render_def supported_formats_def Let_def
           split: if_splits option.splits prod.splits sum.splits)

theorem render_mermaid_mime_and_bytes_witness:
  "map_of [(''mime'', PyStr ''image/png''), (''bytes'', PyBytes [137, 80, 78, 71]),
           (''warnings'', PyList [])] ''mime''
     = Some (PyStr (if format_param (Some ''png'') = ''svg'' then ''image/svg+xml'' else ''image/png''))
   \<and> (\<exists>payload. map_of [(''mime'', PyStr ''image/png''), (''bytes'', PyBytes [137, 80, 78, 71]),
           (''warnings'', PyList [])] ''bytes'' = Some (PyBytes payload) \<and> payload \<noteq> [])"
proof -
  have nonempty: "''graph TD; A-->B'' \<noteq> []" by simp
  have fmt: "format_param (Some ''png'') \<in> {''svg'', ''png''}"
    by (simp add: format_param_def)
  have call: "render_mermaid (client_render (\<lambda>d f e. Some ([137, 80, 78, 71], [])))
        \<lparr>connected = True\<rparr> ''graph TD; A-->B'' (Some ''png'')
      = (Inr [(''mime'', PyStr ''image/png''), (''bytes'', PyBytes [137, 80, 78, 71]),
              (''warnings'', PyList [])], \<lparr>connected = True\<rparr>)"
    by (simp add: render_mermaid_def client_render_def supported_formats_def format_param_def)
  show ?thesis
    using render_mermaid_mime_and_bytes [OF nonempty fmt call] .
qed

text \<open>
  Claim C2. With the client of the specification, connected as the module leaves it after
  \<^verbatim>\<open>_client.start()\<close>, a call with the empty diagram raises InvalidArgument, whatever
  the format argument (the client that is not connected is the subject of claim C4).
\<close>

theorem render_mermaid_empty_diagram:
  assumes "connected c"
  shows "render_mermaid (client_render backend) c [] fa = (Inl InvalidArgument, c)"
  using assms by (simp add: render_mermaid_def client_render_def)

theorem render_mermaid_empty_diagram_witness:
  "render_mermaid (client_render (\<lambda>d f e. Some ([60], []))) (client_start new_client)
       [] (Some ''png'')
     = (Inl InvalidArgument, client_start new_client)"
proof -
  have "connected (client_start new_client)"
    by (simp add: client_start_def new_client_def)
  then show ?thesis
    by (rule render_mermaid_empty_diagram)
qed

text \<open>
  Claim C3. With the client of the specification, connected as the module leaves it after
  \<^verbatim>\<open>_client.start()\<close>, a call whose format argument is neither \<^verbatim>\<open>svg\<close> nor \<^verbatim>\<open>png\<close>
  raises InvalidArgument, whatever the diagram.
\<close>

theorem render_mermaid_unsupported_format:
  assumes "connected c" and "fmt \<notin> {''svg'', ''png''}"
  shows "render_mermaid (client_render backend) c diagram (Some fmt) = (Inl InvalidArgument, c)"
  using assms
  by (simp add: render_mermaid_def client_render_def supported_formats_def format_param_def)

theorem render_mermaid_unsupported_format_witness:
  "render_mermaid (client_render (\<lambda>d f e. Some ([60], []))) (client_start new_client)
       ''graph TD; A-->B'' (Some ''pdf'')
     = (Inl InvalidArgument, client_start new_client)"
proof -
  have conn: "connected (client_start new_client)"
    by (simp add: client_start_def new_client_def)
  have fmt: "''pdf'' \<notin> {''svg'', ''png''}" by simp
  show ?thesis
    using render_mermaid_unsupported_format [OF conn fmt] .
qed

text \<open>
  Claim C4. With the client of the specification, a call made while the connection is not
  established raises BackendUnavailable, whatever the diagram and the format argument.
\<close>

theorem render_mermaid_not_connected:
  assumes "\<not> connected c"
  shows "render_mermaid (client_render backend) c diagram fa = (Inl BackendUnavailable, c)"
  using assms by (simp add: render_mermaid_def client_render_def)

theorem render_mermaid_not_connected_witness:
  "render_mermaid (client_render (\<lambda>d f e. Some ([60], []))) new_client ''graph TD; A-->B'' None
     = (Inl BackendUnavailable, new_client)"
proof -
  have "\<not> connected new_client"
    by (simp add: new_client_def)
  then show ?thesis
    by (rule render_mermaid_not_connected)
qed

end
